theory Spec2Isabelle
  imports Complex_Main "HOL-Library.Sublist" "HOL-Library.Log_Nat"
begin

section \<open>The RSP analysis dispatcher \<open>rsp_analyze\<close>\<close>

text \<open>
  A shallow embedding of \<^verbatim>\<open>neurokit2/rsp/rsp_analyze.py\<close>. The function normalises its
  \<^verbatim>\<open>method\<close> argument, inspects the shape of \<^verbatim>\<open>data\<close> and hands the work to one of
  two routines of the library, \<^verbatim>\<open>rsp_eventrelated\<close> and \<^verbatim>\<open>rsp_intervalrelated\<close>. Both
  live in other modules; here they are parameters of the model, so that every theorem
  holds for whatever they compute.
\<close>

subsection \<open>Data\<close>

text \<open>
  The exceptions that the function can raise itself. \<open>ValueError\<close> is the one it raises
  on purpose (the specification calls it InvalidInputError). \<open>UnboundLocalError\<close> is what
  Python raises when a local variable is read before any assignment to it.
  \<open>ZeroDivisionError\<close> and \<open>OverflowError\<close> come from \<^verbatim>\<open>/ sampling_rate\<close>, \<open>KeyError\<close>
  and \<open>IndexError\<close> from \<^verbatim>\<open>value_counts()[0]\<close>.
\<close>

datatype error =
  ValueError | UnboundLocalError | ZeroDivisionError | OverflowError | KeyError | IndexError

text \<open>
  A cell of a table is a string or an integer: these are the two kinds of epoch label
  that matter for \<^verbatim>\<open>value_counts()[0]\<close>. Missing values and floats are not modelled.
\<close>

datatype cell = is_CStr: CStr string | is_CInt: CInt int

text \<open>
  A pandas DataFrame: its columns in order, each a name with its cells, and the number
  of rows (\<^verbatim>\<open>len(data)\<close>, the length of the index).
\<close>

record table =
  columns :: "(string \<times> cell list) list"
  nrows :: nat

text \<open>
  The \<^verbatim>\<open>data\<close> argument as the \<^verbatim>\<open>isinstance\<close> tests of the source see it: a dict of
  epochs (in insertion order, which is the order of \<^verbatim>\<open>for i in data\<close>; the keys of a dict
  are distinct, so \<^verbatim>\<open>data[i]\<close> at the i-th key is the i-th table), a DataFrame, or a
  value that is neither.
\<close>

datatype data = Dict "(string \<times> table) list" | DataFrame table | Other

text \<open>
  The outcome of a call: the result or the exception raised, together with the two
  mutable arguments (\<^verbatim>\<open>data\<close> and the list \<^verbatim>\<open>subepoch_rate\<close>) as the call leaves them.
  \<^verbatim>\<open>sampling_rate\<close> and \<^verbatim>\<open>method\<close> are an int and a str, which no callee can change.
  The class of an object is fixed, so the \<^verbatim>\<open>isinstance\<close> tests are decided by the value
  that was passed in.
\<close>

type_synonym ('f, 'w) outcome = "(error + 'f) \<times> data \<times> 'w"

subsection \<open>Strings\<close>

text \<open>
  \<^verbatim>\<open>str.lower()\<close> on the ASCII letters. (The only character outside ASCII that Python
  lowers to an ASCII letter is the Kelvin sign, to \<open>k\<close>, and no recognised method name
  contains a \<open>k\<close>.)
\<close>

definition lower_char :: "char \<Rightarrow> char" where
  "lower_char c =
     (let n = (of_char c :: nat) in if 65 \<le> n \<and> n \<le> 90 then char_of (n + 32) else c)"

definition lower :: "string \<Rightarrow> string" where
  "lower s = map lower_char s"

text \<open>\<^verbatim>\<open>sub in s\<close> on strings: \<open>sub\<close> occurs in \<open>s\<close> as a contiguous substring.\<close>

fun str_contains :: "string \<Rightarrow> string \<Rightarrow> bool" where
  "str_contains sub [] = (sub = [])"
| "str_contains sub (c # cs) = (prefix sub (c # cs) \<or> str_contains sub cs)"

subsection \<open>Tables\<close>

text \<open>\<^verbatim>\<open>data.columns.values\<close>\<close>

definition column_names :: "table \<Rightarrow> string list" where
  "column_names t = map fst (columns t)"

text \<open>
  \<^verbatim>\<open>Series.value_counts()\<close>: each distinct value with the number of its occurrences, the
  most frequent first. (The order among equally frequent values has no influence on
  what \<open>getitem0\<close> returns.)
\<close>

definition value_counts :: "cell list \<Rightarrow> (cell \<times> nat) list" where
  "value_counts xs =
     sort_key (\<lambda>(v, c). - int c) (map (\<lambda>v. (v, count_list xs v)) (remdups xs))"

text \<open>
  \<^verbatim>\<open>s[0]\<close> on the Series that \<open>value_counts\<close> returns, whose index holds the values that
  were counted. pandas reads an integer key as a label when the index holds integers
  (\<open>KeyError\<close> when no label is 0), and as a position otherwise (\<open>IndexError\<close> on an
  empty Series).
\<close>

definition holds_integer :: "(cell \<times> nat) list \<Rightarrow> bool" where
  "holds_integer s = list_ex (\<lambda>(v, c). is_CInt v) s"

definition getitem0 :: "(cell \<times> nat) list \<Rightarrow> error + nat" where
  "getitem0 s =
     (if holds_integer s
      then (case map_of s (CInt 0) of None \<Rightarrow> Inl KeyError | Some c \<Rightarrow> Inr c)
      else (case s of [] \<Rightarrow> Inl IndexError | (v, c) # _ \<Rightarrow> Inr c))"

subsection \<open>The quotient of two ints\<close>

text \<open>
  Python's \<^verbatim>\<open>/\<close> on two ints returns a float: the binary64 number nearest to the exact
  quotient, ties going to the even significand. A float is modelled by the rational
  number that is its value.
\<close>

text \<open>Rounding to the nearest integer, ties to the even one.\<close>

definition round_half_even :: "rat \<Rightarrow> int" where
  "round_half_even y =
     (let n = \<lfloor>y\<rfloor>; r = y - of_int n
      in if r < 1 / 2 then n else if 1 / 2 < r then n + 1 else if even n then n else n + 1)"

text \<open>
  The binary exponent of \<open>a / b\<close> for positive \<open>a\<close> and \<open>b\<close>: the \<open>e\<close> with
  \<open>2^e \<le> a / b < 2^(e + 1)\<close>. The difference of the bit lengths is \<open>e\<close> or \<open>e + 1\<close>.
\<close>

definition exponent :: "nat \<Rightarrow> nat \<Rightarrow> int" where
  "exponent a b =
     (let k = bitlen (int a) - bitlen (int b)
      in if power_int 2 k * rat_of_nat b \<le> rat_of_nat a then k else k - 1)"

text \<open>
  The binary64 number nearest to \<open>a / b\<close>, for \<open>b\<close> positive: a significand of 53 bits
  at the exponent of the quotient, which is no smaller than -1022 (below that the
  floats are subnormal and keep the spacing \<open>2^-1074\<close>).
\<close>

definition binary64 :: "nat \<Rightarrow> nat \<Rightarrow> rat" where
  "binary64 a b =
     (if a = 0 then 0
      else let e = max (exponent a b) (- 1022); ulp = power_int 2 (e - 52)
           in of_int (round_half_even (rat_of_nat a / (rat_of_nat b * ulp))) * ulp)"

text \<open>
  \<^verbatim>\<open>x / sampling_rate\<close> with \<open>x\<close> a count. Division by zero raises \<open>ZeroDivisionError\<close>, a
  quotient that rounds to \<open>2^1024\<close> or more raises \<open>OverflowError\<close>.
\<close>

definition py_div :: "nat \<Rightarrow> int \<Rightarrow> error + rat" where
  "py_div x sampling_rate =
     (if sampling_rate = 0 then Inl ZeroDivisionError
      else let r = binary64 x (nat \<bar>sampling_rate\<bar>)
           in if power_int 2 1024 \<le> r then Inl OverflowError
              else Inr (if sampling_rate < 0 then - r else r))"

subsection \<open>The two loops over a dict of epochs\<close>

text \<open>
  \<^verbatim>\<open>for i in data: colnames = data[i].columns.values\<close>. The second argument is the
  variable \<^verbatim>\<open>colnames\<close>, \<open>None\<close> while it is unbound.
\<close>

fun colnames_loop :: "(string \<times> table) list \<Rightarrow> string list option \<Rightarrow> string list option" where
  "colnames_loop [] colnames = colnames"
| "colnames_loop ((i, t) # d) colnames = colnames_loop d (Some (column_names t))"

text \<open>
  The sanity check's first statement: the \<^verbatim>\<open>if isinstance(data, dict)\<close> /
  \<^verbatim>\<open>elif isinstance(data, pd.DataFrame)\<close> that binds \<^verbatim>\<open>colnames\<close>.
\<close>

definition event_colnames :: "data \<Rightarrow> string list option" where
  "event_colnames data =
     (case data of
        Dict d \<Rightarrow> colnames_loop d None
      | DataFrame t \<Rightarrow> Some (column_names t)
      | Other \<Rightarrow> None)"

text \<open>
  \<^verbatim>\<open>for i in data: duration = len(data[i]) / sampling_rate\<close>. The third argument is the
  variable \<^verbatim>\<open>duration\<close>, \<open>None\<close> while it is unbound.
\<close>

fun duration_loop :: "(string \<times> table) list \<Rightarrow> int \<Rightarrow> rat option \<Rightarrow> error + rat option" where
  "duration_loop [] sampling_rate duration = Inr duration"
| "duration_loop ((i, t) # d) sampling_rate duration =
     (case py_div (nrows t) sampling_rate of
        Inl e \<Rightarrow> Inl e
      | Inr q \<Rightarrow> duration_loop d sampling_rate (Some q))"

text \<open>The duration of a dict of epochs; reading \<^verbatim>\<open>duration\<close> unbound raises.\<close>

definition dict_duration :: "(string \<times> table) list \<Rightarrow> int \<Rightarrow> error + rat" where
  "dict_duration d sampling_rate =
     (case duration_loop d sampling_rate None of
        Inl e \<Rightarrow> Inl e
      | Inr None \<Rightarrow> Inl UnboundLocalError
      | Inr (Some duration) \<Rightarrow> Inr duration)"

text \<open>
  The duration of a DataFrame: from the most frequent label when there is a column
  named \<open>Label\<close>, from the number of rows otherwise.
\<close>

definition frame_duration :: "table \<Rightarrow> int \<Rightarrow> error + rat" where
  "frame_duration t sampling_rate =
     (if ''Label'' \<in> set (column_names t)
      then (case map_of (columns t) ''Label'' of
              None \<Rightarrow> Inl KeyError
            | Some labels \<Rightarrow>
                (case getitem0 (value_counts labels) of
                   Inl e \<Rightarrow> Inl e
                 | Inr epoch_len \<Rightarrow> py_div epoch_len sampling_rate))
      else py_div (nrows t) sampling_rate)"

subsection \<open>The dispatcher\<close>

text \<open>An exception raised by the function itself leaves the arguments as they are.\<close>

definition raise :: "error \<Rightarrow> data \<Rightarrow> 'w \<Rightarrow> ('f, 'w) outcome" where
  "raise e data subepoch_rate = (Inl e, data, subepoch_rate)"

text \<open>
  \<^verbatim>\<open>features = rsp_intervalrelated(data, sampling_rate)\<close>: the callee sees \<^verbatim>\<open>data\<close> only.
\<close>

definition call_intervalrelated ::
  "(data \<Rightarrow> int \<Rightarrow> (error + 'f) \<times> data) \<Rightarrow> data \<Rightarrow> int \<Rightarrow> 'w \<Rightarrow> ('f, 'w) outcome" where
  "call_intervalrelated rsp_intervalrelated data sampling_rate subepoch_rate =
     (case rsp_intervalrelated data sampling_rate of
        (features, data') \<Rightarrow> (features, data', subepoch_rate))"

text \<open>
  The \<^verbatim>\<open>if duration >= 10\<close> of the auto branch, which occurs twice in the source.
\<close>

definition by_duration ::
  "(data \<Rightarrow> 'w \<Rightarrow> ('f, 'w) outcome) \<Rightarrow> (data \<Rightarrow> int \<Rightarrow> (error + 'f) \<times> data) \<Rightarrow>
     rat \<Rightarrow> data \<Rightarrow> int \<Rightarrow> 'w \<Rightarrow> ('f, 'w) outcome" where
  "by_duration rsp_eventrelated rsp_intervalrelated duration data sampling_rate subepoch_rate =
     (if duration \<ge> 10
      then call_intervalrelated rsp_intervalrelated data sampling_rate subepoch_rate
      else rsp_eventrelated data subepoch_rate)"

text \<open>
  \<^verbatim>\<open>rsp_analyze(data, sampling_rate, method, subepoch_rate)\<close>, with the two routines it
  calls as its first two arguments. Where no branch assigns \<^verbatim>\<open>features\<close>, the final
  \<^verbatim>\<open>return features\<close> raises \<open>UnboundLocalError\<close>.
\<close>

definition rsp_analyze ::
  "(data \<Rightarrow> 'w \<Rightarrow> ('f, 'w) outcome) \<Rightarrow> (data \<Rightarrow> int \<Rightarrow> (error + 'f) \<times> data) \<Rightarrow>
     data \<Rightarrow> int \<Rightarrow> string \<Rightarrow> 'w \<Rightarrow> ('f, 'w) outcome" where
  "rsp_analyze rsp_eventrelated rsp_intervalrelated data sampling_rate method subepoch_rate =
     (let method = lower method in
      if method \<in> set [''event-related'', ''event'', ''epoch''] then
        (case event_colnames data of
           None \<Rightarrow> raise UnboundLocalError data subepoch_rate
         | Some colnames \<Rightarrow>
             if length (filter (str_contains ''Label'') colnames) = 0
             then raise ValueError data subepoch_rate
             else rsp_eventrelated data subepoch_rate)
      else if method \<in> set [''interval-related'', ''interval'', ''resting-state''] then
        call_intervalrelated rsp_intervalrelated data sampling_rate subepoch_rate
      else if method \<in> set [''auto''] then
        (case data of
           Dict d \<Rightarrow>
             (case dict_duration d sampling_rate of
                Inl e \<Rightarrow> raise e data subepoch_rate
              | Inr duration \<Rightarrow>
                  by_duration rsp_eventrelated rsp_intervalrelated duration
                    data sampling_rate subepoch_rate)
         | DataFrame t \<Rightarrow>
             (case frame_duration t sampling_rate of
                Inl e \<Rightarrow> raise e data subepoch_rate
              | Inr duration \<Rightarrow>
                  by_duration rsp_eventrelated rsp_intervalrelated duration
                    data sampling_rate subepoch_rate)
         | Other \<Rightarrow> raise UnboundLocalError data subepoch_rate)
      else raise UnboundLocalError data subepoch_rate)"

subsection \<open>Values for the examples\<close>

text \<open>The default of the source for \<^verbatim>\<open>subepoch_rate\<close>: \<^verbatim>\<open>[None, None]\<close>.\<close>

definition default_subepoch_rate :: "rat option list" where
  "default_subepoch_rate = [None, None]"

text \<open>
  Two stand-ins for the routines of the library: each returns its own name as the
  features and leaves its arguments as they are, so that an outcome shows which one
  was called.
\<close>

definition eventrelated_probe :: "data \<Rightarrow> rat option list \<Rightarrow> (string, rat option list) outcome" where
  "eventrelated_probe data subepoch_rate = (Inr ''rsp_eventrelated'', data, subepoch_rate)"

definition intervalrelated_probe :: "data \<Rightarrow> int \<Rightarrow> (error + string) \<times> data" where
  "intervalrelated_probe data sampling_rate = (Inr ''rsp_intervalrelated'', data)"

text \<open>A recording of \<open>n\<close> samples, as \<^verbatim>\<open>rsp_process\<close> returns it: no column \<open>Label\<close>.\<close>

definition recording :: "nat \<Rightarrow> table" where
  "recording n =
     \<lparr>columns = [(''RSP_Raw'', replicate n (CInt 0)), (''RSP_Rate'', replicate n (CInt 15))],
      nrows = n\<rparr>"

text \<open>An epoch of \<open>n\<close> samples with its label, as \<^verbatim>\<open>epochs_create\<close> returns it.\<close>

definition epoch :: "cell \<Rightarrow> nat \<Rightarrow> table" where
  "epoch l n =
     \<lparr>columns = [(''RSP_Rate'', replicate n (CInt 15)), (''Label'', replicate n l)],
      nrows = n\<rparr>"

text \<open>
  Epochs in one table, as \<^verbatim>\<open>epochs_to_df\<close> returns them: the labels of all rows, in the
  column \<open>Label\<close>.
\<close>

definition epochs_frame :: "cell list \<Rightarrow> table" where
  "epochs_frame labels =
     \<lparr>columns = [(''RSP_Rate'', map (\<lambda>l. CInt 15) labels), (''Label'', labels)],
      nrows = length labels\<rparr>"

section \<open>Properties\<close>

subsection \<open>Strings\<close>

lemma lower_char_idem: "lower_char (lower_char c) = lower_char c"
  by (auto simp: lower_char_def Let_def)

lemma lower_idem: "lower (lower s) = lower s"
  by (simp add: lower_def lower_char_idem)

lemma str_contains_sublist: "str_contains sub s = sublist sub s"
  by (induction s) (auto simp: sublist_Cons_right)

subsection \<open>The float quotient\<close>

lemma round_half_even_bounds:
  "rat_of_int (round_half_even y) \<le> y + 1 / 2" "y - 1 / 2 \<le> rat_of_int (round_half_even y)"
proof -
  define n where "n = \<lfloor>y\<rfloor>"
  have f: "rat_of_int n \<le> y" "y < rat_of_int n + 1"
    unfolding n_def by linarith+
  have r: "round_half_even y =
      (if y - of_int n < 1 / 2 then n else if 1 / 2 < y - of_int n then n + 1
       else if even n then n else n + 1)"
    by (simp add: round_half_even_def Let_def n_def)
  show "rat_of_int (round_half_even y) \<le> y + 1 / 2"
    unfolding r using f by (auto split: if_splits)
  show "y - 1 / 2 \<le> rat_of_int (round_half_even y)"
    unfolding r using f by (auto split: if_splits)
qed

lemma round_half_even_ge: "rat_of_int m \<le> y \<Longrightarrow> m \<le> round_half_even y"
proof -
  assume "rat_of_int m \<le> y"
  with round_half_even_bounds(2) [of y] have "rat_of_int m - 1 / 2 \<le> rat_of_int (round_half_even y)"
    by linarith
  then have "rat_of_int m < rat_of_int (round_half_even y) + 1" by linarith
  then have "m < round_half_even y + 1" by (metis of_int_1 of_int_add of_int_less_iff)
  then show ?thesis by simp
qed

lemma round_half_even_le: "y \<le> rat_of_int m \<Longrightarrow> round_half_even y \<le> m"
proof -
  assume "y \<le> rat_of_int m"
  with round_half_even_bounds(1) [of y] have "rat_of_int (round_half_even y) < rat_of_int m + 1"
    by linarith
  then have "round_half_even y < m + 1" by (metis of_int_1 of_int_add of_int_less_iff)
  then show ?thesis by simp
qed

lemma round_half_even_less: "y < rat_of_int m - 1 / 2 \<Longrightarrow> round_half_even y < m"
proof -
  assume "y < rat_of_int m - 1 / 2"
  with round_half_even_bounds(1) [of y] have "rat_of_int (round_half_even y) < rat_of_int m"
    by linarith
  then show ?thesis by simp
qed

lemma bitlen_rat_bounds:
  assumes "0 < a"
  shows "power_int 2 (bitlen (int a) - 1) \<le> rat_of_nat a"
    and "rat_of_nat a < power_int 2 (bitlen (int a))"
    and "1 \<le> bitlen (int a)"
proof -
  have pos: "0 < int a" using assms by simp
  from bitlen_bounds [OF pos]
  have lo: "2 ^ nat (bitlen (int a) - 1) \<le> int a" and hi: "int a < 2 ^ nat (bitlen (int a))"
    by simp_all
  show one: "1 \<le> bitlen (int a)"
    using pos bitlen_eq_zero_iff [of "int a"] bitlen_nonneg [of "int a"] by linarith
  have "rat_of_int (2 ^ nat (bitlen (int a) - 1)) \<le> rat_of_int (int a)"
    using lo by (simp only: of_int_le_iff)
  then show "power_int 2 (bitlen (int a) - 1) \<le> rat_of_nat a"
    using one by (simp add: power_int_def)
  have "rat_of_int (int a) < rat_of_int (2 ^ nat (bitlen (int a)))"
    using hi by (simp only: of_int_less_iff)
  then show "rat_of_nat a < power_int 2 (bitlen (int a))"
    using one by (simp add: power_int_def)
qed

lemma exponent_bounds:
  assumes "0 < a" and "0 < b"
  shows "power_int 2 (exponent a b) * rat_of_nat b \<le> rat_of_nat a"
    and "rat_of_nat a < power_int 2 (exponent a b + 1) * rat_of_nat b"
proof -
  define la lb k where "la = bitlen (int a)" and "lb = bitlen (int b)" and "k = la - lb"
  note A = bitlen_rat_bounds [OF assms(1), folded la_def]
  note B = bitlen_rat_bounds [OF assms(2), folded lb_def]
  have bpos: "0 < rat_of_nat b" using assms(2) by simp
  have p: "0 < power_int (2::rat) i" for i by simp
  have up: "rat_of_nat a < power_int 2 (k + 1) * rat_of_nat b"
  proof -
    have "power_int (2::rat) la = power_int 2 (k + 1) * power_int 2 (lb - 1)"
      by (simp add: k_def flip: power_int_add)
    also have "\<dots> \<le> power_int 2 (k + 1) * rat_of_nat b"
      using B(1) p [of "k + 1"] by simp
    finally show ?thesis using A(2) by linarith
  qed
  have low: "power_int 2 (k - 1) * rat_of_nat b \<le> rat_of_nat a"
  proof -
    have "power_int 2 (k - 1) * rat_of_nat b \<le> power_int 2 (k - 1) * power_int 2 lb"
      using B(2) p [of "k - 1"] by simp
    also have "\<dots> = power_int 2 (la - 1)"
      by (simp add: k_def flip: power_int_add)
    finally show ?thesis using A(1) by linarith
  qed
  have e: "exponent a b = (if power_int 2 k * rat_of_nat b \<le> rat_of_nat a then k else k - 1)"
    by (simp add: exponent_def Let_def k_def la_def lb_def)
  show "power_int 2 (exponent a b) * rat_of_nat b \<le> rat_of_nat a"
    using low by (simp add: e)
  show "rat_of_nat a < power_int 2 (exponent a b + 1) * rat_of_nat b"
    using up by (auto simp: e)
qed

lemma binary64_normal:
  assumes "0 < a" and "0 < b" and "- 1022 \<le> exponent a b"
  shows "\<exists>n. binary64 a b = rat_of_int n * power_int 2 (exponent a b - 52) \<and>
     n = round_half_even (rat_of_nat a / (rat_of_nat b * power_int 2 (exponent a b - 52))) \<and>
     2 ^ 52 \<le> n \<and> n \<le> 2 ^ 53"
proof -
  define e where "e = exponent a b"
  define ulp :: rat where "ulp = power_int 2 (e - 52)"
  define y where "y = rat_of_nat a / (rat_of_nat b * ulp)"
  have ulp_pos: "0 < ulp" by (simp add: ulp_def)
  have bpos: "0 < rat_of_nat b" using assms(2) by simp
  note L = exponent_bounds(1) [OF assms(1,2), folded e_def]
  note U = exponent_bounds(2) [OF assms(1,2), folded e_def]
  have s52: "power_int (2::rat) e = 2 ^ 52 * ulp"
  proof -
    have "power_int (2::rat) (52 + (e - 52)) = power_int 2 52 * power_int 2 (e - 52)"
      by (rule power_int_add) simp
    then show ?thesis by (simp add: ulp_def)
  qed
  have s53: "power_int (2::rat) (e + 1) = 2 ^ 53 * ulp"
  proof -
    have "power_int (2::rat) (53 + (e - 52)) = power_int 2 53 * power_int 2 (e - 52)"
      by (rule power_int_add) simp
    then show ?thesis by (simp add: ulp_def add.commute)
  qed
  have ylo: "2 ^ 52 \<le> y"
  proof -
    have "2 ^ 52 * (rat_of_nat b * ulp) \<le> rat_of_nat a"
      using L by (simp add: s52 mult_ac)
    then show ?thesis
      unfolding y_def using bpos ulp_pos by (simp add: pos_le_divide_eq)
  qed
  have yhi: "y < 2 ^ 53"
  proof -
    have "rat_of_nat a < 2 ^ 53 * (rat_of_nat b * ulp)"
      using U by (simp add: s53 mult_ac)
    then show ?thesis
      unfolding y_def using bpos ulp_pos by (simp add: pos_divide_less_eq)
  qed
  have nlo: "2 ^ 52 \<le> round_half_even y"
    using round_half_even_ge [of "2 ^ 52" y] ylo by simp
  have nhi: "round_half_even y \<le> 2 ^ 53"
    using round_half_even_le [of y "2 ^ 53"] yhi by simp
  have "binary64 a b = rat_of_int (round_half_even y) * ulp"
    using assms(1,3) by (simp add: binary64_def Let_def y_def ulp_def e_def max_def)
  with nlo nhi show ?thesis
    unfolding y_def ulp_def e_def by blast
qed

lemma exponent_range:
  assumes "0 < a" and "0 < b" and "b < 2 ^ 50" and "a < 2 ^ 63"
  shows "- 50 \<le> exponent a b" and "exponent a b \<le> 62"
proof -
  define e where "e = exponent a b"
  note L = exponent_bounds(1) [OF assms(1,2), folded e_def]
  note U = exponent_bounds(2) [OF assms(1,2), folded e_def]
  have b1: "1 \<le> rat_of_nat b" using assms(2) by simp
  have b50: "rat_of_nat b < 2 ^ 50"
    using assms(3) by (metis of_nat_less_iff of_nat_numeral of_nat_power)
  have a1: "1 \<le> rat_of_nat a" using assms(1) by simp
  have a63: "rat_of_nat a < 2 ^ 63"
    using assms(4) by (metis of_nat_less_iff of_nat_numeral of_nat_power)
  show "- 50 \<le> e"
  proof (rule ccontr)
    assume "\<not> - 50 \<le> e"
    then have "e + 1 \<le> - 50" by simp
    then have "power_int (2::rat) (e + 1) \<le> power_int 2 (- 50)"
      by (intro power_int_increasing) simp_all
    then have "power_int (2::rat) (e + 1) * rat_of_nat b \<le> power_int 2 (- 50) * rat_of_nat b"
      using b1 by (intro mult_right_mono) simp_all
    also have "\<dots> < power_int 2 (- 50) * 2 ^ 50"
      using b50 by (intro mult_strict_left_mono) simp_all
    also have "\<dots> = 1" by (simp add: power_int_minus)
    finally show False using U a1 by linarith
  qed
  show "e \<le> 62"
  proof (rule ccontr)
    assume "\<not> e \<le> 62"
    then have "63 \<le> e" by simp
    then have "power_int (2::rat) 63 \<le> power_int 2 e"
      by (intro power_int_increasing) simp_all
    also have "\<dots> = power_int 2 e * 1" by simp
    also have "\<dots> \<le> power_int 2 e * rat_of_nat b"
      using b1 by (intro mult_left_mono) simp_all
    finally show False using L a63 by simp
  qed
qed

lemma binade3_ge:
  fixes a b :: rat
  assumes "0 < b" and "10 * b \<le> a"
  shows "rat_of_int 5629499534213120 \<le> a / (b * (1 / 562949953421312))"
proof -
  have c: "0 < b * (1 / 562949953421312)" using assms(1) by simp
  have "rat_of_int 5629499534213120 * (b * (1 / 562949953421312)) = 10 * b" by simp
  with assms(2) have "rat_of_int 5629499534213120 * (b * (1 / 562949953421312)) \<le> a"
    by (simp only:)
  then show ?thesis by (simp only: pos_le_divide_eq [OF c])
qed

lemma binade3_less:
  fixes a b :: rat
  assumes "0 < b" and "b < 1125899906842624" and "a + 1 \<le> 10 * b"
  shows "a / (b * (1 / 562949953421312)) < rat_of_int 5629499534213120 - 1 / 2"
proof -
  have c: "0 < b * (1 / 562949953421312)" using assms(1) by simp
  have "(rat_of_int 5629499534213120 - 1 / 2) * (b * (1 / 562949953421312)) =
      10 * b - b / 1125899906842624"
    by (simp add: algebra_simps)
  moreover have "b / 1125899906842624 < 1" using assms(2) by simp
  ultimately have "a < (rat_of_int 5629499534213120 - 1 / 2) * (b * (1 / 562949953421312))"
    using assms(3) by linarith
  then show ?thesis by (simp only: pos_divide_less_eq [OF c])
qed

lemma binary64_between:
  assumes "0 < a" and "0 < b" and "- 1022 \<le> exponent a b"
  shows "power_int 2 (exponent a b) \<le> binary64 a b"
    and "binary64 a b \<le> power_int 2 (exponent a b + 1)"
proof -
  define e where "e = exponent a b"
  define ulp :: rat where "ulp = power_int 2 (e - 52)"
  have ulp_pos: "0 < ulp" by (simp add: ulp_def)
  from binary64_normal [OF assms]
  obtain n where v: "binary64 a b = rat_of_int n * ulp"
    and nlo: "2 ^ 52 \<le> n" and nhi: "n \<le> 2 ^ 53"
    unfolding e_def ulp_def by auto
  have "rat_of_int (2 ^ 52) \<le> rat_of_int n" using nlo by (simp only: of_int_le_iff)
  then have rlo: "(2::rat) ^ 52 \<le> rat_of_int n" by simp
  have "rat_of_int n \<le> rat_of_int (2 ^ 53)" using nhi by (simp only: of_int_le_iff)
  then have rhi: "rat_of_int n \<le> 2 ^ 53" by simp
  have "power_int (2::rat) (52 + (e - 52)) = power_int 2 52 * power_int 2 (e - 52)"
    by (rule power_int_add) simp
  then have s52: "power_int (2::rat) e = 2 ^ 52 * ulp" by (simp add: ulp_def)
  have "power_int (2::rat) (53 + (e - 52)) = power_int 2 53 * power_int 2 (e - 52)"
    by (rule power_int_add) simp
  then have s53: "power_int (2::rat) (e + 1) = 2 ^ 53 * ulp" by (simp add: ulp_def add.commute)
  show "power_int 2 (exponent a b) \<le> binary64 a b"
    unfolding e_def [symmetric] v s52 using rlo ulp_pos by (intro mult_right_mono) simp_all
  show "binary64 a b \<le> power_int 2 (exponent a b + 1)"
    unfolding e_def [symmetric] v s53 using rhi ulp_pos by (intro mult_right_mono) simp_all
qed

lemma binary64_no_overflow:
  assumes "0 < b" and "b < 2 ^ 50" and "a < 2 ^ 63"
  shows "binary64 a b < power_int 2 1024"
proof (cases "a = 0")
  case True
  then show ?thesis by (simp add: binary64_def)
next
  case False
  then have apos: "0 < a" by simp
  note R = exponent_range [OF apos assms]
  have n: "- 1022 \<le> exponent a b" using R(1) by simp
  have "power_int (2::rat) (exponent a b + 1) \<le> power_int 2 63"
    using R(2) by (intro power_int_increasing) simp_all
  also have "\<dots> < power_int 2 1024"
    by (intro power_int_strict_increasing) simp_all
  finally show ?thesis using binary64_between(2) [OF apos assms(1) n] by linarith
qed

lemma binary64_ge_10:
  assumes "0 < b" and "b < 2 ^ 50" and "a < 2 ^ 63" and "10 * b \<le> a"
  shows "10 \<le> binary64 a b"
proof -
  have apos: "0 < a" using assms(1,4) by simp
  define e where "e = exponent a b"
  note U = exponent_bounds(2) [OF apos assms(1), folded e_def]
  note R = exponent_range [OF apos assms(1,2,3), folded e_def]
  have n1022: "- 1022 \<le> exponent a b" using R(1) by (simp add: e_def)
  have bpos: "0 < rat_of_nat b" using assms(1) by simp
  have "rat_of_nat (10 * b) \<le> rat_of_nat a" using assms(4) by (simp only: of_nat_le_iff)
  then have ge: "10 * rat_of_nat b \<le> rat_of_nat a" by simp
  have e3: "3 \<le> e"
  proof (rule ccontr)
    assume "\<not> 3 \<le> e"
    then have "e + 1 \<le> 3" by simp
    then have "power_int (2::rat) (e + 1) \<le> power_int 2 3"
      by (intro power_int_increasing) simp_all
    then have "power_int (2::rat) (e + 1) \<le> 8" by simp
    then have "power_int (2::rat) (e + 1) * rat_of_nat b \<le> 8 * rat_of_nat b"
      using bpos by (intro mult_right_mono) simp_all
    with U ge bpos show False by linarith
  qed
  show ?thesis
  proof (cases "e = 3")
    case True
    from binary64_normal [OF apos assms(1) n1022]
    obtain n where v: "binary64 a b = rat_of_int n * power_int 2 (e - 52)"
      and n: "n = round_half_even (rat_of_nat a / (rat_of_nat b * power_int 2 (e - 52)))"
      unfolding e_def by auto
    have "power_int (2::rat) (e - 52) = power_int 2 (- 49)" using True by simp
    also have "\<dots> = 1 / 562949953421312" by (simp add: power_int_def field_simps)
    finally have ulp: "power_int (2::rat) (e - 52) = 1 / 562949953421312" .
    have "5629499534213120 \<le> n"
      unfolding n ulp using binade3_ge [OF bpos ge] by (rule round_half_even_ge)
    then have "rat_of_int 5629499534213120 \<le> rat_of_int n"
      by (simp only: of_int_le_iff)
    then show ?thesis unfolding v ulp by simp
  next
    case False
    with e3 have "4 \<le> e" by simp
    then have "power_int (2::rat) 4 \<le> power_int 2 e"
      by (intro power_int_increasing) simp_all
    then have "16 \<le> power_int (2::rat) e" by simp
    with binary64_between(1) [OF apos assms(1) n1022] show ?thesis
      unfolding e_def by linarith
  qed
qed

lemma binary64_less_10:
  assumes "0 < b" and "b < 2 ^ 50" and "a < 10 * b"
  shows "binary64 a b < 10"
proof (cases "a = 0")
  case True
  then show ?thesis by (simp add: binary64_def)
next
  case False
  then have apos: "0 < a" by simp
  have a63: "a < 2 ^ 63"
  proof -
    have "10 * b < 10 * 2 ^ 50" using assms(2) by simp
    also have "\<dots> < (2::nat) ^ 63" by simp
    finally show ?thesis using assms(3) by simp
  qed
  define e where "e = exponent a b"
  note L = exponent_bounds(1) [OF apos assms(1), folded e_def]
  note R = exponent_range [OF apos assms(1,2) a63, folded e_def]
  have n1022: "- 1022 \<le> exponent a b" using R(1) by (simp add: e_def)
  have bpos: "0 < rat_of_nat b" using assms(1) by simp
  have "rat_of_nat b < rat_of_nat (2 ^ 50)" using assms(2) by (simp only: of_nat_less_iff)
  then have b50: "rat_of_nat b < 1125899906842624" by simp
  have "a + 1 \<le> 10 * b" using assms(3) by simp
  then have "rat_of_nat (a + 1) \<le> rat_of_nat (10 * b)" by (simp only: of_nat_le_iff)
  then have le: "rat_of_nat a + 1 \<le> 10 * rat_of_nat b" by simp
  have e3: "e \<le> 3"
  proof (rule ccontr)
    assume "\<not> e \<le> 3"
    then have "4 \<le> e" by simp
    then have "power_int (2::rat) 4 \<le> power_int 2 e"
      by (intro power_int_increasing) simp_all
    then have "16 \<le> power_int (2::rat) e" by simp
    then have "16 * rat_of_nat b \<le> power_int 2 e * rat_of_nat b"
      using bpos by (intro mult_right_mono) simp_all
    with L le bpos show False by linarith
  qed
  show ?thesis
  proof (cases "e = 3")
    case True
    from binary64_normal [OF apos assms(1) n1022]
    obtain n where v: "binary64 a b = rat_of_int n * power_int 2 (e - 52)"
      and n: "n = round_half_even (rat_of_nat a / (rat_of_nat b * power_int 2 (e - 52)))"
      unfolding e_def by auto
    have "power_int (2::rat) (e - 52) = power_int 2 (- 49)" using True by simp
    also have "\<dots> = 1 / 562949953421312" by (simp add: power_int_def field_simps)
    finally have ulp: "power_int (2::rat) (e - 52) = 1 / 562949953421312" .
    have "n < 5629499534213120"
      unfolding n ulp using binade3_less [OF bpos b50 le] by (rule round_half_even_less)
    then have "rat_of_int n < rat_of_int 5629499534213120"
      by (simp only: of_int_less_iff)
    then show ?thesis unfolding v ulp by simp
  next
    case False
    with e3 have "e + 1 \<le> 3" by simp
    then have "power_int (2::rat) (e + 1) \<le> power_int 2 3"
      by (intro power_int_increasing) simp_all
    then have "power_int (2::rat) (e + 1) \<le> 8" by simp
    with binary64_between(2) [OF apos assms(1) n1022] show ?thesis
      unfolding e_def by linarith
  qed
qed

lemma py_div_threshold:
  assumes "0 < sampling_rate" and "sampling_rate < 2 ^ 50" and "x < 2 ^ 63"
  shows "py_div x sampling_rate = Inr (binary64 x (nat sampling_rate))"
    and "(10 \<le> binary64 x (nat sampling_rate)) =
      (10 \<le> rat_of_nat x / rat_of_int sampling_rate)"
proof -
  define b where "b = nat sampling_rate"
  have bpos: "0 < b" using assms(1) by (simp add: b_def)
  have "sampling_rate < int (2 ^ 50)" using assms(2) by simp
  then have b50: "b < 2 ^ 50" using assms(1) unfolding b_def by (simp only: nat_less_iff)
  have sb: "rat_of_int sampling_rate = rat_of_nat b"
    using assms(1) by (simp add: b_def)
  have "\<not> power_int 2 1024 \<le> binary64 x b"
    using binary64_no_overflow [OF bpos b50 assms(3)] by simp
  then show "py_div x sampling_rate = Inr (binary64 x (nat sampling_rate))"
    using assms(1) by (simp add: py_div_def Let_def b_def)
  have "(10 \<le> binary64 x b) = (10 * b \<le> x)"
  proof (cases "10 * b \<le> x")
    case True
    with binary64_ge_10 [OF bpos b50 assms(3)] show ?thesis by simp
  next
    case False
    then have "x < 10 * b" by simp
    from binary64_less_10 [OF bpos b50 this] False show ?thesis by simp
  qed
  also have "(10 * b \<le> x) = (rat_of_nat (10 * b) \<le> rat_of_nat x)"
    by (simp only: of_nat_le_iff)
  also have "\<dots> = (10 \<le> rat_of_nat x / rat_of_nat b)"
    using bpos by (simp add: pos_le_divide_eq)
  finally show "(10 \<le> binary64 x (nat sampling_rate)) =
      (10 \<le> rat_of_nat x / rat_of_int sampling_rate)"
    unfolding sb b_def [symmetric] .
qed

text \<open>
  The bound on the sampling rate is needed: at \<open>2^50\<close> Hz and \<open>10 * 2^50 - 1\<close> rows the
  exact quotient is below 10 and lies halfway between two floats, and the float
  quotient is 10.
\<close>

lemma bitlen_examples:
  "bitlen 11258999068426239 = 54" "bitlen 1125899906842624 = 51"
  by code_simp+

lemma round_half_even_tie: "round_half_even (11258999068426239 / 2) = 5629499534213120"
  by code_simp

lemma py_div_tie_at_10:
  "py_div 11258999068426239 1125899906842624 = Inr 10"
  "rat_of_nat 11258999068426239 / rat_of_int 1125899906842624 < 10"
proof -
  have e: "exponent 11258999068426239 1125899906842624 = 3"
    by (simp add: exponent_def Let_def bitlen_examples)
  have ulp: "power_int (2::rat) (3 - 52) = 1 / 562949953421312"
    by (simp add: power_int_def field_simps)
  have "binary64 11258999068426239 1125899906842624 = 10"
    unfolding binary64_def Let_def e by (simp add: ulp round_half_even_tie)
  then show "py_div 11258999068426239 1125899906842624 = Inr 10"
    by (simp add: py_div_def Let_def)
  show "rat_of_nat 11258999068426239 / rat_of_int 1125899906842624 < 10"
    by simp
qed


subsection \<open>Loops and label counts\<close>

lemma colnames_loop_last:
  "d \<noteq> [] \<Longrightarrow> colnames_loop d colnames = Some (column_names (snd (last d)))"
proof (induction d arbitrary: colnames)
  case Nil
  then show ?case by simp
next
  case (Cons p d)
  obtain i t where p: "p = (i, t)" by (cases p)
  show ?case
  proof (cases "d = []")
    case True
    with p show ?thesis by simp
  next
    case False
    with p Cons.IH show ?thesis by simp
  qed
qed

lemma duration_loop_last:
  assumes "0 < sampling_rate" and "sampling_rate < 2 ^ 50"
    and "\<forall>(i, t)\<in>set d. nrows t < 2 ^ 63" and "d \<noteq> []"
  shows "duration_loop d sampling_rate duration =
     Inr (Some (binary64 (nrows (snd (last d))) (nat sampling_rate)))"
  using assms(3,4)
proof (induction d arbitrary: duration)
  case Nil
  then show ?case by simp
next
  case (Cons p d)
  obtain i t where p: "p = (i, t)" by (cases p)
  have "nrows t < 2 ^ 63" using Cons.prems(1) p by simp
  note q = py_div_threshold(1) [OF assms(1,2) this]
  show ?case
  proof (cases "d = []")
    case True
    with p q show ?thesis by simp
  next
    case False
    with p q Cons.IH [of "Some (binary64 (nrows t) (nat sampling_rate))"] Cons.prems(1)
    show ?thesis by simp
  qed
qed

lemma value_counts_set:
  "set (value_counts xs) = (\<lambda>v. (v, count_list xs v)) ` set xs"
  by (simp add: value_counts_def)

lemma value_counts_sorted:
  "sorted (map (\<lambda>(v, c). - int c) (value_counts xs))"
  by (simp add: value_counts_def)

lemma holds_integer_value_counts:
  "holds_integer (value_counts xs) = (\<exists>v\<in>set xs. is_CInt v)"
  by (auto simp: holds_integer_def list_ex_iff value_counts_set)

lemma value_counts_head:
  assumes "value_counts xs = (v, c) # s"
  shows "c = Max (count_list xs ` set xs)"
proof -
  have mem: "(v, c) \<in> set (value_counts xs)" using assms by simp
  then have v: "v \<in> set xs" and c: "c = count_list xs v"
    by (auto simp: value_counts_set)
  have "count_list xs u \<le> c" if "u \<in> set xs" for u
  proof -
    from that have "(u, count_list xs u) \<in> set (value_counts xs)"
      by (auto simp: value_counts_set)
    with assms have "(u, count_list xs u) = (v, c) \<or> (u, count_list xs u) \<in> set s"
      by auto
    moreover have "\<forall>p\<in>set s. (\<lambda>(v, c). - int c) (v, c) \<le> (\<lambda>(v, c). - int c) p"
      using value_counts_sorted [of xs] assms by auto
    ultimately show ?thesis by auto
  qed
  with v c show ?thesis
    by (intro Max_eqI [symmetric]) auto
qed

lemma getitem0_strings:
  assumes "xs \<noteq> []" and "\<forall>v\<in>set xs. is_CStr v"
  shows "getitem0 (value_counts xs) = Inr (Max (count_list xs ` set xs))"
proof -
  have "\<not> holds_integer (value_counts xs)"
    using assms(2) by (auto simp: holds_integer_value_counts cell.disc)
  moreover have "value_counts xs \<noteq> []"
    using assms(1) value_counts_set [of xs] by (metis empty_set image_is_empty set_empty)
  then obtain v c s where "value_counts xs = (v, c) # s"
    by (cases "value_counts xs") auto
  ultimately show ?thesis
    using value_counts_head [of xs v c s] by (simp add: getitem0_def)
qed

subsection \<open>The branches of the dispatcher\<close>

lemma rsp_analyze_event:
  assumes "lower method \<in> set [''event-related'', ''event'', ''epoch'']"
  shows "rsp_analyze E I data sampling_rate method subepoch_rate =
     (case event_colnames data of
        None \<Rightarrow> raise UnboundLocalError data subepoch_rate
      | Some colnames \<Rightarrow>
          if length (filter (str_contains ''Label'') colnames) = 0
          then raise ValueError data subepoch_rate
          else E data subepoch_rate)"
  using assms unfolding rsp_analyze_def Let_def by (simp only: if_True)

lemma method_lists_disjoint:
  "m \<in> set [''interval-related'', ''interval'', ''resting-state''] \<Longrightarrow>
   m \<notin> set [''event-related'', ''event'', ''epoch'']"
  "m \<in> set [''auto''] \<Longrightarrow> m \<notin> set [''event-related'', ''event'', ''epoch'']"
  "m \<in> set [''auto''] \<Longrightarrow> m \<notin> set [''interval-related'', ''interval'', ''resting-state'']"
  by auto

lemma rsp_analyze_interval:
  assumes "lower method \<in> set [''interval-related'', ''interval'', ''resting-state'']"
  shows "rsp_analyze E I data sampling_rate method subepoch_rate =
     call_intervalrelated I data sampling_rate subepoch_rate"
  using assms method_lists_disjoint(1) [OF assms]
  unfolding rsp_analyze_def Let_def by (simp only: if_True if_False)

lemma rsp_analyze_auto:
  assumes "lower method = ''auto''"
  shows "rsp_analyze E I data sampling_rate method subepoch_rate =
     (case data of
        Dict d \<Rightarrow>
          (case dict_duration d sampling_rate of
             Inl e \<Rightarrow> raise e data subepoch_rate
           | Inr duration \<Rightarrow> by_duration E I duration data sampling_rate subepoch_rate)
      | DataFrame t \<Rightarrow>
          (case frame_duration t sampling_rate of
             Inl e \<Rightarrow> raise e data subepoch_rate
           | Inr duration \<Rightarrow> by_duration E I duration data sampling_rate subepoch_rate)
      | Other \<Rightarrow> raise UnboundLocalError data subepoch_rate)"
proof -
  have a: "lower method \<in> set [''auto'']" using assms by simp
  show ?thesis
    using a method_lists_disjoint(2) [OF a] method_lists_disjoint(3) [OF a]
    unfolding rsp_analyze_def Let_def by (simp only: if_True if_False)
qed

lemma rsp_analyze_unknown:
  assumes "lower method \<notin> set [''event-related'', ''event'', ''epoch'']"
    and "lower method \<notin> set [''interval-related'', ''interval'', ''resting-state'']"
    and "lower method \<notin> set [''auto'']"
  shows "rsp_analyze E I data sampling_rate method subepoch_rate =
     raise UnboundLocalError data subepoch_rate"
  using assms unfolding rsp_analyze_def Let_def by (simp only: if_False)

lemma lower_auto: "lower ''auto'' = ''auto''" by code_simp

subsection \<open>The automatic mode on a recording\<close>

text \<open>
  Claim C1. When the method lowers to \<open>auto\<close> and the data is one table with no column
  named \<open>Label\<close>, the duration is the float quotient of the number of rows and the
  sampling rate, and the call is the call of the interval-related routine on the data
  and the sampling rate when the number of rows divided by the sampling rate is at least
  10, and otherwise the call of the event-related routine on the data and the sub-epoch
  window. The sampling rate is positive, as the specification has it, and below \<open>2^50\<close>,
  where rounding cannot carry a quotient across 10; the number of rows is below \<open>2^63\<close>,
  the largest length of a Python object. The examples of the specification, 500 and 1500
  rows at 100 Hz, follow it.
\<close>

theorem auto_frame_without_Label:
  assumes "lower method = ''auto''"
    and "''Label'' \<notin> set (column_names t)"
    and "0 < sampling_rate" and "sampling_rate < 2 ^ 50" and "nrows t < 2 ^ 63"
  shows "frame_duration t sampling_rate = Inr (binary64 (nrows t) (nat sampling_rate)) \<and>
     rsp_analyze E I (DataFrame t) sampling_rate method subepoch_rate =
       (if rat_of_nat (nrows t) / rat_of_int sampling_rate \<ge> 10
        then (fst (I (DataFrame t) sampling_rate), snd (I (DataFrame t) sampling_rate),
              subepoch_rate)
        else E (DataFrame t) subepoch_rate)"
proof -
  note q = py_div_threshold [OF assms(3,4,5)]
  have d: "frame_duration t sampling_rate = Inr (binary64 (nrows t) (nat sampling_rate))"
    using assms(2) q(1) by (simp add: frame_duration_def)
  show ?thesis
    by (simp add: d rsp_analyze_auto [OF assms(1)] by_duration_def q(2)
        call_intervalrelated_def split_beta)
qed

lemma recording_no_Label: "''Label'' \<notin> set (column_names (recording n))"
  by (simp add: column_names_def recording_def)

theorem auto_frame_without_Label_witness:
  "rsp_analyze eventrelated_probe intervalrelated_probe (DataFrame (recording 500)) 100 ''auto''
       default_subepoch_rate =
     (Inr ''rsp_eventrelated'', DataFrame (recording 500), default_subepoch_rate) \<and>
   rsp_analyze eventrelated_probe intervalrelated_probe (DataFrame (recording 1500)) 100 ''auto''
       default_subepoch_rate =
     (Inr ''rsp_intervalrelated'', DataFrame (recording 1500), default_subepoch_rate)"
proof -
  have sr: "(0::int) < 100" "(100::int) < 2 ^ 50" by simp_all
  have r500: "nrows (recording 500) = 500" and r1500: "nrows (recording 1500) = 1500"
    by (simp_all add: recording_def)
  have n500: "nrows (recording 500) < 2 ^ 63" and n1500: "nrows (recording 1500) < 2 ^ 63"
    by (simp_all add: r500 r1500)
  show ?thesis
    using auto_frame_without_Label [OF lower_auto recording_no_Label sr n500,
        of eventrelated_probe intervalrelated_probe default_subepoch_rate]
      auto_frame_without_Label [OF lower_auto recording_no_Label sr n1500,
        of eventrelated_probe intervalrelated_probe default_subepoch_rate]
    by (simp add: r500 r1500 eventrelated_probe_def intervalrelated_probe_def)
qed

subsection \<open>The event-related mode\<close>

lemma lower_event_related: "lower ''event-related'' = ''event-related''" by code_simp

text \<open>
  Claim C2, amended. When the method lowers to one of \<open>event-related\<close>, \<open>event\<close>, \<open>epoch\<close>
  and the data is one table or a dict with at least one epoch, the names that the sanity
  check looks at are the column names of the table, or of the last epoch of the dict.
  The call raises \<open>ValueError\<close> when none of them contains \<open>Label\<close>, and otherwise it is
  the call of the event-related routine on the data and the sub-epoch window, whose
  outcome it returns.
\<close>

theorem event_related_check:
  assumes "lower method \<in> set [''event-related'', ''event'', ''epoch'']"
    and "data = DataFrame t \<and> colnames = column_names t \<or>
         data = Dict d \<and> d \<noteq> [] \<and> colnames = column_names (snd (last d))"
  shows "rsp_analyze E I data sampling_rate method subepoch_rate =
     (if \<exists>c\<in>set colnames. str_contains ''Label'' c
      then E data subepoch_rate
      else raise ValueError data subepoch_rate)"
proof -
  have c: "event_colnames data = Some colnames"
    using assms(2) by (auto simp: event_colnames_def colnames_loop_last)
  have "(length (filter (str_contains ''Label'') colnames) = 0) =
      (\<not> (\<exists>c\<in>set colnames. str_contains ''Label'' c))"
    by (simp add: filter_empty_conv)
  with c show ?thesis
    by (simp add: rsp_analyze_event [OF assms(1)])
qed

theorem event_related_check_witness:
  "rsp_analyze eventrelated_probe intervalrelated_probe (DataFrame (recording 500)) 100
       ''event-related'' default_subepoch_rate =
     raise ValueError (DataFrame (recording 500)) default_subepoch_rate \<and>
   rsp_analyze eventrelated_probe intervalrelated_probe
       (Dict [(''1'', epoch (CStr ''1'') 200), (''2'', epoch (CStr ''2'') 200)]) 100
       ''event-related'' default_subepoch_rate =
     eventrelated_probe (Dict [(''1'', epoch (CStr ''1'') 200), (''2'', epoch (CStr ''2'') 200)])
       default_subepoch_rate"
proof -
  have m: "lower ''event-related'' \<in> set [''event-related'', ''event'', ''epoch'']"
    by (simp add: lower_event_related)
  show ?thesis
    using
    event_related_check [OF m, where data = "DataFrame (recording 500)" and t = "recording 500"
      and colnames = "column_names (recording 500)"
      and E = eventrelated_probe and I = intervalrelated_probe
      and sampling_rate = 100 and subepoch_rate = default_subepoch_rate]
    event_related_check [OF m, where
          data = "Dict [(''1'', epoch (CStr ''1'') 200), (''2'', epoch (CStr ''2'') 200)]"
      and d = "[(''1'', epoch (CStr ''1'') 200), (''2'', epoch (CStr ''2'') 200)]"
      and colnames = "column_names (epoch (CStr ''2'') 200)"
      and E = eventrelated_probe and I = intervalrelated_probe
      and sampling_rate = 100 and subepoch_rate = default_subepoch_rate]
    by (simp add: column_names_def recording_def epoch_def)
qed

text \<open>
  The claim as written fails in two places. On an empty dict of epochs \<^verbatim>\<open>colnames\<close> stays
  unbound, and the call neither raises \<open>ValueError\<close> nor reaches the event-related
  routine. On a dict whose last epoch alone lacks a column \<open>Label\<close>, the call raises
  \<open>ValueError\<close> although column names of the input contain \<open>Label\<close>.
\<close>

theorem event_related_check_counterexample:
  "rsp_analyze eventrelated_probe intervalrelated_probe (Dict []) 100 ''event-related''
       default_subepoch_rate =
     (Inl UnboundLocalError, Dict [], default_subepoch_rate) \<and>
   rsp_analyze eventrelated_probe intervalrelated_probe (Dict []) 100 ''event-related''
       default_subepoch_rate \<noteq>
     raise ValueError (Dict []) default_subepoch_rate \<and>
   rsp_analyze eventrelated_probe intervalrelated_probe (Dict []) 100 ''event-related''
       default_subepoch_rate \<noteq>
     eventrelated_probe (Dict []) default_subepoch_rate \<and>
   str_contains ''Label'' ''Label'' \<and>
   ''Label'' \<in> set (column_names (epoch (CStr ''A'') 300)) \<and>
   rsp_analyze eventrelated_probe intervalrelated_probe
       (Dict [(''A'', epoch (CStr ''A'') 300), (''B'', epoch (CStr ''B'') 300),
              (''C'', recording 300)]) 100 ''event-related'' default_subepoch_rate =
     raise ValueError
       (Dict [(''A'', epoch (CStr ''A'') 300), (''B'', epoch (CStr ''B'') 300),
              (''C'', recording 300)]) default_subepoch_rate"
proof -
  have m: "lower ''event-related'' \<in> set [''event-related'', ''event'', ''epoch'']"
    by (simp add: lower_event_related)
  show ?thesis
    by (simp add: rsp_analyze_event [OF m] event_colnames_def raise_def eventrelated_probe_def
        column_names_def recording_def epoch_def)
qed

text \<open>
  Claim C3, amended. On a dict of epochs the loop of the sanity check assigns
  \<^verbatim>\<open>colnames\<close> anew for each epoch, so the names that are checked are the column names of
  the last epoch in the order of iteration.
\<close>

theorem event_colnames_last_epoch:
  assumes "d \<noteq> []"
  shows "event_colnames (Dict d) = Some (column_names (snd (last d)))"
  using assms by (simp add: event_colnames_def colnames_loop_last)

theorem event_colnames_last_epoch_witness:
  "event_colnames (Dict [(''1'', epoch (CStr ''1'') 200), (''2'', recording 200)]) =
     Some [''RSP_Raw'', ''RSP_Rate'']"
proof -
  have "[(''1'', epoch (CStr ''1'') 200), (''2'', recording 200)] \<noteq> []" by simp
  from event_colnames_last_epoch [OF this] show ?thesis
    by (simp add: column_names_def recording_def)
qed

text \<open>
  The names are not collected from every epoch: here the first epoch has a column
  \<open>Label\<close>, the last has none, and the call raises \<open>ValueError\<close>.
\<close>

theorem event_colnames_every_epoch_counterexample:
  "event_colnames (Dict [(''1'', epoch (CStr ''1'') 200), (''2'', recording 200)]) =
     Some [''RSP_Raw'', ''RSP_Rate''] \<and>
   ''Label'' \<in> (\<Union>(i, t)\<in>set [(''1'', epoch (CStr ''1'') 200), (''2'', recording 200)].
       set (column_names t)) \<and>
   rsp_analyze eventrelated_probe intervalrelated_probe
       (Dict [(''1'', epoch (CStr ''1'') 200), (''2'', recording 200)]) 100 ''event-related''
       default_subepoch_rate =
     raise ValueError (Dict [(''1'', epoch (CStr ''1'') 200), (''2'', recording 200)])
       default_subepoch_rate"
proof -
  have m: "lower ''event-related'' \<in> set [''event-related'', ''event'', ''epoch'']"
    by (simp add: lower_event_related)
  show ?thesis
    by (simp add: rsp_analyze_event [OF m] event_colnames_def column_names_def
        recording_def epoch_def)
qed

subsection \<open>A method that is not recognised\<close>

text \<open>
  Claim C4, amended. When the method lowers to none of the seven recognised names, no
  branch assigns \<^verbatim>\<open>features\<close>: neither routine is called and \<^verbatim>\<open>return features\<close> raises
  \<open>UnboundLocalError\<close>, whatever the data. The call returns no result, and the exception
  is not a \<open>ValueError\<close>.
\<close>

theorem unknown_method_unbound:
  assumes "lower method \<notin> set [''event-related'', ''event'', ''epoch'',
      ''interval-related'', ''interval'', ''resting-state'', ''auto'']"
  shows "rsp_analyze E I data sampling_rate method subepoch_rate =
     raise UnboundLocalError data subepoch_rate"
  using assms by (intro rsp_analyze_unknown) auto

lemma lower_continuous: "lower ''Continuous'' = ''continuous''" by code_simp

theorem unknown_method_unbound_witness:
  "rsp_analyze eventrelated_probe intervalrelated_probe (DataFrame (recording 1500)) 100
       ''Continuous'' default_subepoch_rate =
     (Inl UnboundLocalError, DataFrame (recording 1500), default_subepoch_rate)"
proof -
  have "lower ''Continuous'' \<notin> set [''event-related'', ''event'', ''epoch'',
      ''interval-related'', ''interval'', ''resting-state'', ''auto'']"
    by (simp add: lower_continuous)
  from unknown_method_unbound [OF this] show ?thesis
    by (simp add: raise_def)
qed

text \<open>The exception for a method that is not recognised is not \<open>ValueError\<close>.\<close>

theorem unknown_method_counterexample:
  "rsp_analyze eventrelated_probe intervalrelated_probe (DataFrame (recording 1500)) 100
       ''continuous'' default_subepoch_rate =
     (Inl UnboundLocalError, DataFrame (recording 1500), default_subepoch_rate) \<and>
   fst (rsp_analyze eventrelated_probe intervalrelated_probe (DataFrame (recording 1500)) 100
       ''continuous'' default_subepoch_rate) \<noteq> Inl ValueError"
proof -
  have l: "lower ''continuous'' = ''continuous''" by code_simp
  show ?thesis
    by (simp add: rsp_analyze_unknown l raise_def)
qed

subsection \<open>The automatic mode on epochs\<close>

text \<open>
  Claim C5. When the method lowers to \<open>auto\<close> and the data is a dict with at least one
  epoch, the duration is the float quotient of the number of rows of the last epoch in
  the order of iteration and the sampling rate, and the call is the call of the
  interval-related routine on the data and the sampling rate when that number of rows
  divided by the sampling rate is at least 10, and otherwise the call of the
  event-related routine on the data and the sub-epoch window. The sampling rate is
  positive and below \<open>2^50\<close>, and every epoch has fewer than \<open>2^63\<close> rows.
\<close>

theorem auto_dict_last_epoch:
  assumes "lower method = ''auto''" and "d \<noteq> []"
    and "0 < sampling_rate" and "sampling_rate < 2 ^ 50"
    and "\<forall>(i, t)\<in>set d. nrows t < 2 ^ 63"
  shows "dict_duration d sampling_rate =
       Inr (binary64 (nrows (snd (last d))) (nat sampling_rate)) \<and>
     rsp_analyze E I (Dict d) sampling_rate method subepoch_rate =
       (if rat_of_nat (nrows (snd (last d))) / rat_of_int sampling_rate \<ge> 10
        then (fst (I (Dict d) sampling_rate), snd (I (Dict d) sampling_rate), subepoch_rate)
        else E (Dict d) subepoch_rate)"
proof -
  have "last d \<in> set d" using assms(2) by simp
  with assms(5) have "nrows (snd (last d)) < 2 ^ 63" by (auto simp: case_prod_beta)
  note q = py_div_threshold(2) [OF assms(3,4) this]
  have dur: "dict_duration d sampling_rate =
      Inr (binary64 (nrows (snd (last d))) (nat sampling_rate))"
    by (simp add: dict_duration_def duration_loop_last [OF assms(3,4,5,2)])
  show ?thesis
    by (simp add: dur rsp_analyze_auto [OF assms(1)] by_duration_def q
        call_intervalrelated_def split_beta)
qed

theorem auto_dict_last_epoch_witness:
  "rsp_analyze eventrelated_probe intervalrelated_probe
       (Dict [(''1'', epoch (CStr ''1'') 200), (''2'', epoch (CStr ''2'') 1200)]) 100 ''auto''
       default_subepoch_rate =
     (Inr ''rsp_intervalrelated'',
      Dict [(''1'', epoch (CStr ''1'') 200), (''2'', epoch (CStr ''2'') 1200)],
      default_subepoch_rate) \<and>
   rsp_analyze eventrelated_probe intervalrelated_probe
       (Dict [(''1'', epoch (CStr ''1'') 1200), (''2'', epoch (CStr ''2'') 200)]) 100 ''auto''
       default_subepoch_rate =
     (Inr ''rsp_eventrelated'',
      Dict [(''1'', epoch (CStr ''1'') 1200), (''2'', epoch (CStr ''2'') 200)],
      default_subepoch_rate)"
proof -
  have sr: "(0::int) < 100" "(100::int) < 2 ^ 50" by simp_all
  have a: "[(''1'', epoch (CStr ''1'') 200), (''2'', epoch (CStr ''2'') 1200)] \<noteq> []"
    and b: "[(''1'', epoch (CStr ''1'') 1200), (''2'', epoch (CStr ''2'') 200)] \<noteq> []"
    by simp_all
  have na: "\<forall>(i, t)\<in>set [(''1'', epoch (CStr ''1'') 200), (''2'', epoch (CStr ''2'') 1200)].
      nrows t < 2 ^ 63"
    and nb: "\<forall>(i, t)\<in>set [(''1'', epoch (CStr ''1'') 1200), (''2'', epoch (CStr ''2'') 200)].
      nrows t < 2 ^ 63"
    by (simp_all add: epoch_def)
  show ?thesis
    using auto_dict_last_epoch [OF lower_auto a sr na, of eventrelated_probe
        intervalrelated_probe default_subepoch_rate]
      auto_dict_last_epoch [OF lower_auto b sr nb, of eventrelated_probe
        intervalrelated_probe default_subepoch_rate]
    by (simp add: epoch_def eventrelated_probe_def intervalrelated_probe_def)
qed

subsection \<open>The automatic mode on a table of epochs\<close>

text \<open>
  What \<^verbatim>\<open>value_counts()[0]\<close> is after: on a column \<open>Label\<close> of strings with at least one
  row it is the number of occurrences of the most frequent label, and that count
  divided by the sampling rate decides the routine.
\<close>

lemma auto_frame_string_labels:
  assumes "lower method = ''auto''"
    and "map_of (columns t) ''Label'' = Some labels"
    and "labels \<noteq> []" and "\<forall>v\<in>set labels. is_CStr v"
    and "0 < sampling_rate" and "sampling_rate < 2 ^ 50" and "length labels < 2 ^ 63"
  shows "rsp_analyze E I (DataFrame t) sampling_rate method subepoch_rate =
     (if rat_of_nat (Max (count_list labels ` set labels)) / rat_of_int sampling_rate \<ge> 10
      then (fst (I (DataFrame t) sampling_rate), snd (I (DataFrame t) sampling_rate),
            subepoch_rate)
      else E (DataFrame t) subepoch_rate)"
proof -
  define m where "m = Max (count_list labels ` set labels)"
  have "m \<in> count_list labels ` set labels"
    unfolding m_def using assms(3) by (intro Max_in) simp_all
  then have "m \<le> length labels" by (auto simp: count_le_length)
  with assms(7) have "m < 2 ^ 63" by simp
  note q = py_div_threshold [OF assms(5,6) this]
  have "''Label'' \<in> set (column_names t)"
    using assms(2) by (auto simp: column_names_def dest: map_of_SomeD intro: rev_image_eqI)
  then have dur: "frame_duration t sampling_rate = Inr (binary64 m (nat sampling_rate))"
    using assms(2) q(1) getitem0_strings [OF assms(3,4)]
    by (simp add: frame_duration_def m_def)
  show ?thesis
    by (simp add: dur rsp_analyze_auto [OF assms(1)] by_duration_def q(2)
        call_intervalrelated_def split_beta flip: m_def)
qed

lemma count_list_replicate:
  "count_list (replicate n x) y = (if x = y then n else 0)"
  by (induction n) auto

lemma vc_int_0: "value_counts (replicate 10 (CInt 1) @ [CInt 0]) = [(CInt 1, 10), (CInt 0, 1)]"
  by code_simp

lemma vc_int_12: "value_counts [CInt 1, CInt 1, CInt 2] = [(CInt 1, 2), (CInt 2, 1)]"
  by code_simp

lemma binary64_1_1: "binary64 (Suc 0) (Suc 0) = 1"
  by code_simp

text \<open>
  Claim C6, which the code misses on integer labels. There \<^verbatim>\<open>value_counts()[0]\<close> looks
  up the label 0 instead of taking the first count. With ten rows of epoch 1 and one row
  of epoch 0 at 1 Hz the most frequent label occurs 10 times, which makes a duration of
  10 and the interval-related routine; the code takes the count 1 of the label 0 and
  calls the event-related routine. With the epochs 1 and 2 and no epoch 0 the call
  raises \<open>KeyError\<close>.
\<close>

theorem auto_frame_integer_labels:
  "Max (count_list (replicate 10 (CInt 1) @ [CInt 0]) `
       set (replicate 10 (CInt 1) @ [CInt 0])) = 10 \<and>
   getitem0 (value_counts (replicate 10 (CInt 1) @ [CInt 0])) = Inr 1 \<and>
   frame_duration (epochs_frame (replicate 10 (CInt 1) @ [CInt 0])) 1 = Inr 1 \<and>
   rsp_analyze eventrelated_probe intervalrelated_probe
       (DataFrame (epochs_frame (replicate 10 (CInt 1) @ [CInt 0]))) 1 ''auto''
       default_subepoch_rate =
     (Inr ''rsp_eventrelated'', DataFrame (epochs_frame (replicate 10 (CInt 1) @ [CInt 0])),
      default_subepoch_rate) \<and>
   rsp_analyze eventrelated_probe intervalrelated_probe
       (DataFrame (epochs_frame [CInt 1, CInt 1, CInt 2])) 100 ''auto''
       default_subepoch_rate =
     (Inl KeyError, DataFrame (epochs_frame [CInt 1, CInt 1, CInt 2]), default_subepoch_rate)"
proof -
  have mx: "Max (count_list (replicate 10 (CInt 1) @ [CInt 0]) `
      set (replicate 10 (CInt 1) @ [CInt 0])) = 10"
    by (simp add: count_list_replicate)
  have g: "getitem0 (value_counts (replicate 10 (CInt 1) @ [CInt 0])) = Inr 1"
    by (simp add: vc_int_0 getitem0_def holds_integer_def)
  have dur: "frame_duration (epochs_frame (replicate 10 (CInt 1) @ [CInt 0])) 1 = Inr 1"
    by (simp add: frame_duration_def epochs_frame_def column_names_def g py_div_def
        binary64_1_1)
  have run: "rsp_analyze eventrelated_probe intervalrelated_probe
       (DataFrame (epochs_frame (replicate 10 (CInt 1) @ [CInt 0]))) 1 ''auto''
       default_subepoch_rate =
     (Inr ''rsp_eventrelated'', DataFrame (epochs_frame (replicate 10 (CInt 1) @ [CInt 0])),
      default_subepoch_rate)"
    by (simp add: rsp_analyze_auto [OF lower_auto] dur by_duration_def eventrelated_probe_def)
  have "frame_duration (epochs_frame [CInt 1, CInt 1, CInt 2]) 100 = Inl KeyError"
    by (simp add: frame_duration_def epochs_frame_def column_names_def vc_int_12 getitem0_def
        holds_integer_def)
  then have key: "rsp_analyze eventrelated_probe intervalrelated_probe
       (DataFrame (epochs_frame [CInt 1, CInt 1, CInt 2])) 100 ''auto''
       default_subepoch_rate =
     (Inl KeyError, DataFrame (epochs_frame [CInt 1, CInt 1, CInt 2]), default_subepoch_rate)"
    by (simp add: rsp_analyze_auto [OF lower_auto] raise_def)
  from mx g dur run key show ?thesis by blast
qed

subsection \<open>The interval-related mode\<close>

text \<open>
  Claim C7. When the method lowers to one of \<open>interval-related\<close>, \<open>interval\<close>,
  \<open>resting-state\<close>, the call is the call of the interval-related routine on the data and
  the sampling rate, for data of every shape: it checks nothing, raises nothing of its
  own and returns what the routine returns.
\<close>

theorem interval_related_delegates:
  assumes "lower method \<in> set [''interval-related'', ''interval'', ''resting-state'']"
  shows "rsp_analyze E I data sampling_rate method subepoch_rate =
     (fst (I data sampling_rate), snd (I data sampling_rate), subepoch_rate)"
  by (simp add: rsp_analyze_interval [OF assms] call_intervalrelated_def split_beta)

lemma lower_Resting_State: "lower ''Resting-State'' = ''resting-state''" by code_simp

theorem interval_related_delegates_witness:
  "rsp_analyze eventrelated_probe intervalrelated_probe (Dict []) 0 ''Resting-State''
       default_subepoch_rate =
     (Inr ''rsp_intervalrelated'', Dict [], default_subepoch_rate) \<and>
   rsp_analyze eventrelated_probe intervalrelated_probe Other 0 ''Resting-State''
       default_subepoch_rate =
     (Inr ''rsp_intervalrelated'', Other, default_subepoch_rate)"
proof -
  have m: "lower ''Resting-State'' \<in> set [''interval-related'', ''interval'', ''resting-state'']"
    by (simp add: lower_Resting_State)
  show ?thesis
    using interval_related_delegates [OF m, of eventrelated_probe intervalrelated_probe
        "Dict []" 0 default_subepoch_rate]
      interval_related_delegates [OF m, of eventrelated_probe intervalrelated_probe
        Other 0 default_subepoch_rate]
    by (simp add: intervalrelated_probe_def)
qed

subsection \<open>The method in any case of letters\<close>

text \<open>
  Claim C8. A call with a method and the call with the lowered method have the same
  outcome, for all data, sampling rates and sub-epoch windows.
\<close>

theorem method_case_insensitive:
  "rsp_analyze E I data sampling_rate method subepoch_rate =
   rsp_analyze E I data sampling_rate (lower method) subepoch_rate"
  by (simp add: rsp_analyze_def lower_idem)

lemma lower_Event_Related: "lower ''Event-Related'' = ''event-related''" by code_simp

theorem method_case_insensitive_witness:
  "rsp_analyze eventrelated_probe intervalrelated_probe (DataFrame (epoch (CStr ''1'') 200)) 100
       ''Event-Related'' default_subepoch_rate =
   rsp_analyze eventrelated_probe intervalrelated_probe (DataFrame (epoch (CStr ''1'') 200)) 100
       ''event-related'' default_subepoch_rate"
  using method_case_insensitive [of eventrelated_probe intervalrelated_probe
      "DataFrame (epoch (CStr ''1'') 200)" 100 "''Event-Related''" default_subepoch_rate]
  by (simp only: lower_Event_Related)

subsection \<open>The arguments after the call\<close>

lemma rsp_analyze_cases:
  "rsp_analyze E I data sampling_rate method subepoch_rate = E data subepoch_rate \<or>
   rsp_analyze E I data sampling_rate method subepoch_rate =
     call_intervalrelated I data sampling_rate subepoch_rate \<or>
   (\<exists>e. rsp_analyze E I data sampling_rate method subepoch_rate = raise e data subepoch_rate)"
  unfolding rsp_analyze_def Let_def by_duration_def
  by (auto split: option.split sum.split data.split)

text \<open>
  Claim C9. The outcome of a call is the outcome of the event-related routine, or that
  of the interval-related routine, or an exception raised with the data and the
  sub-epoch window as they were passed in. So the call changes nothing that the routine
  it calls does not change: when the two routines leave their arguments alone on this
  input, the data and the window after the call are the ones before it.
\<close>

theorem rsp_analyze_frame:
  "(rsp_analyze E I data sampling_rate method subepoch_rate = E data subepoch_rate \<or>
    rsp_analyze E I data sampling_rate method subepoch_rate =
      (fst (I data sampling_rate), snd (I data sampling_rate), subepoch_rate) \<or>
    (\<exists>e. rsp_analyze E I data sampling_rate method subepoch_rate =
      (Inl e, data, subepoch_rate))) \<and>
   (snd (E data subepoch_rate) = (data, subepoch_rate) \<longrightarrow>
    snd (I data sampling_rate) = data \<longrightarrow>
    snd (rsp_analyze E I data sampling_rate method subepoch_rate) = (data, subepoch_rate))"
  using rsp_analyze_cases [of E I data sampling_rate "method" subepoch_rate]
  by (auto simp: call_intervalrelated_def raise_def split_beta)

theorem rsp_analyze_frame_witness:
  "snd (rsp_analyze eventrelated_probe intervalrelated_probe (DataFrame (recording 1500)) 100
       ''auto'' default_subepoch_rate) = (DataFrame (recording 1500), default_subepoch_rate)"
proof -
  have e: "snd (eventrelated_probe (DataFrame (recording 1500)) default_subepoch_rate) =
      (DataFrame (recording 1500), default_subepoch_rate)"
    by (simp add: eventrelated_probe_def)
  have i: "snd (intervalrelated_probe (DataFrame (recording 1500)) 100) =
      DataFrame (recording 1500)"
    by (simp add: intervalrelated_probe_def)
  show ?thesis
    using rsp_analyze_frame [of eventrelated_probe intervalrelated_probe
        "DataFrame (recording 1500)" 100 "''auto''" default_subepoch_rate] e i
    by blast
qed

subsection \<open>The automatic mode on an empty dict\<close>

text \<open>
  Claim C10. On a dict with no epoch the loop of the automatic mode never assigns
  \<^verbatim>\<open>duration\<close>, and the call raises \<open>UnboundLocalError\<close> instead of returning features.
\<close>

theorem auto_empty_dict_unbound:
  "duration_loop [] sampling_rate None = Inr None \<and>
   rsp_analyze E I (Dict []) sampling_rate ''auto'' subepoch_rate =
     (Inl UnboundLocalError, Dict [], subepoch_rate)"
  by (simp add: rsp_analyze_auto [OF lower_auto] dict_duration_def raise_def)

theorem auto_empty_dict_unbound_witness:
  "rsp_analyze eventrelated_probe intervalrelated_probe (Dict []) 100 ''auto''
       default_subepoch_rate =
     (Inl UnboundLocalError, Dict [], default_subepoch_rate)"
  using auto_empty_dict_unbound [of 100 eventrelated_probe intervalrelated_probe
      default_subepoch_rate]
  by simp

end
